theory Spec2Isabelle
  imports Main "HOL-Library.Sublist" "HOL-Library.Multiset"
begin

section \<open>Exceptions\<close>

text \<open>
  server.py raises \<^verbatim>\<open>HTTPException(status_code, detail)\<close> itself; every other
  exception comes out of a collaborator (storage, PDF loader, embedding or generation
  provider, the local file system) and is kept as its class name and its \<^verbatim>\<open>str(e)\<close>.
\<close>

datatype exn =
    HTTPException nat string
  | PyError string string

function string_of_nat :: "nat \<Rightarrow> string" where
  "string_of_nat n =
     (if n < 10 then [char_of (48 + n)]
      else string_of_nat (n div 10) @ [char_of (48 + n mod 10)])"
  by pat_completeness auto
termination
  by (relation "measure (\<lambda>n. n)") auto

declare string_of_nat.simps [simp del]

text \<open>
  \<^verbatim>\<open>str(e)\<close>: an HTTPException prints as \<^verbatim>\<open>f"{status_code}: {detail}"\<close>, any other
  exception as its message.
\<close>

fun exn_str :: "exn \<Rightarrow> string" where
  "exn_str (HTTPException code detail) = string_of_nat code @ '': '' @ detail"
| "exn_str (PyError cls msg) = msg"

section \<open>Paths and the local file system\<close>

text \<open>\<^verbatim>\<open>os.path.join\<close> on POSIX, one component at a time.\<close>

definition path_join2 :: "string \<Rightarrow> string \<Rightarrow> string" where
  "path_join2 a b =
     (if take 1 b = ''/'' then b
      else if a = [] \<or> last a = CHR ''/'' then a @ b
      else a @ ''/'' @ b)"

definition path_join :: "string \<Rightarrow> string list \<Rightarrow> string" where
  "path_join a ps = foldl path_join2 a ps"

definition INDEX_DIR :: string where
  "INDEX_DIR = ''./data/indexes''"

fun split_slash :: "string \<Rightarrow> string list" where
  "split_slash [] = [[]]"
| "split_slash (c # cs) =
     (if c = CHR ''/'' then [] # split_slash cs
      else (case split_slash cs of
              [] \<Rightarrow> [[c]]
            | w # ws \<Rightarrow> (c # w) # ws))"

text \<open>
  A document chunk as langchain's \<^verbatim>\<open>Document\<close>: the text and the metadata the PDF
  loader sets. A vector store is the list of embedding vectors and the aligned list of
  documents; on disk it is a directory holding \<^verbatim>\<open>index.faiss\<close> (the vectors) and
  \<^verbatim>\<open>index.pkl\<close> (the documents).
\<close>

record document =
  page_content :: string
  source :: string
  page :: nat

record 'v vectorstore =
  vectors :: "'v list"
  docstore :: "document list"

datatype 'v node =
    Dir
  | FaissFile "'v list"
  | PklFile "document list"

type_synonym 'v filesystem = "string list \<Rightarrow> 'v node option"

text \<open>
  Path resolution as the operating system does it (no symbolic links): a component is
  looked up in the current node, which has to be a directory; \<^verbatim>\<open>..\<close> of the root is
  the root. The last component may name nothing.
\<close>

fun walk :: "'v filesystem \<Rightarrow> string list \<Rightarrow> string list \<Rightarrow> string list option" where
  "walk fs cur [] = Some cur"
| "walk fs cur (c # cs) =
     (if fs cur \<noteq> Some Dir then None
      else if c = [] \<or> c = ''.'' then walk fs cur cs
      else if c = ''..'' then walk fs (butlast cur) cs
      else walk fs (cur @ [c]) cs)"

definition resolve :: "'v filesystem \<Rightarrow> string list \<Rightarrow> string \<Rightarrow> string list option" where
  "resolve fs cwd p = walk fs (if take 1 p = ''/'' then [] else cwd) (split_slash p)"

definition path_exists :: "'v filesystem \<Rightarrow> string list \<Rightarrow> string \<Rightarrow> bool" where
  "path_exists fs cwd p =
     (case resolve fs cwd p of
        None \<Rightarrow> False
      | Some q \<Rightarrow> fs q \<noteq> None)"

text \<open>
  \<^verbatim>\<open>os.makedirs(path, exist_ok=True)\<close> (and \<^verbatim>\<open>Path.mkdir(parents=True, exist_ok=True)\<close>):
  every missing directory along the path is created; a file in the way is an error. The
  directories made before the error stay. The messages stand for the operating system's.
\<close>

fun makedirs_walk ::
  "'v filesystem \<Rightarrow> string list \<Rightarrow> string list \<Rightarrow> exn option \<times> 'v filesystem" where
  "makedirs_walk fs cur [] = (None, fs)"
| "makedirs_walk fs cur (c # cs) =
     (if fs cur \<noteq> Some Dir then (Some (PyError ''NotADirectoryError'' ''[Errno 20] Not a directory''), fs)
      else if c = [] \<or> c = ''.'' then makedirs_walk fs cur cs
      else if c = ''..'' then makedirs_walk fs (butlast cur) cs
      else (case fs (cur @ [c]) of
              None \<Rightarrow> makedirs_walk (fs(cur @ [c] \<mapsto> Dir)) (cur @ [c]) cs
            | Some Dir \<Rightarrow> makedirs_walk fs (cur @ [c]) cs
            | Some _ \<Rightarrow>
                if cs = [] then (Some (PyError ''FileExistsError'' ''[Errno 17] File exists''), fs)
                else makedirs_walk fs (cur @ [c]) cs))"

definition makedirs :: "'v filesystem \<Rightarrow> string list \<Rightarrow> string \<Rightarrow> exn option \<times> 'v filesystem" where
  "makedirs fs cwd p = makedirs_walk fs (if take 1 p = ''/'' then [] else cwd) (split_slash p)"

text \<open>
  Opening a file for writing and writing it. \<open>ro\<close> tells which files the process may
  not open for writing (permissions are not part of the file system map); a failed open
  changes nothing.
\<close>

definition write_file ::
  "(string list \<Rightarrow> bool) \<Rightarrow> 'v filesystem \<Rightarrow> string list \<Rightarrow> string \<Rightarrow> 'v node
     \<Rightarrow> exn option \<times> 'v filesystem" where
  "write_file ro fs cwd p n =
     (case resolve fs cwd p of
        None \<Rightarrow> (Some (PyError ''FileNotFoundError'' ''[Errno 2] No such file or directory''), fs)
      | Some q \<Rightarrow>
          if fs q = Some Dir then (Some (PyError ''IsADirectoryError'' ''[Errno 21] Is a directory''), fs)
          else if ro q then (Some (PyError ''PermissionError'' ''[Errno 13] Permission denied''), fs)
          else (None, fs(q \<mapsto> n)))"

definition read_file :: "'v filesystem \<Rightarrow> string list \<Rightarrow> string \<Rightarrow> 'v node option" where
  "read_file fs cwd p =
     (case resolve fs cwd p of
        None \<Rightarrow> None
      | Some q \<Rightarrow> fs q)"

text \<open>
  \<^verbatim>\<open>FAISS.save_local(folder_path)\<close>: make the directory, write \<^verbatim>\<open>index.faiss\<close>, then
  write \<^verbatim>\<open>index.pkl\<close>, each at its final place.
  \<^verbatim>\<open>FAISS.load_local(folder_path, embeddings)\<close> reads the two files back.
\<close>

definition save_local ::
  "(string list \<Rightarrow> bool) \<Rightarrow> 'v filesystem \<Rightarrow> string list \<Rightarrow> string \<Rightarrow> 'v vectorstore
     \<Rightarrow> exn option \<times> 'v filesystem" where
  "save_local ro fs cwd folder_path vs =
     (case makedirs fs cwd folder_path of
        (Some e, fs1) \<Rightarrow> (Some e, fs1)
      | (None, fs1) \<Rightarrow>
          (case write_file ro fs1 cwd (path_join2 folder_path ''index.faiss'') (FaissFile (vectors vs)) of
             (Some e, fs2) \<Rightarrow> (Some e, fs2)
           | (None, fs2) \<Rightarrow>
               write_file ro fs2 cwd (path_join2 folder_path ''index.pkl'') (PklFile (docstore vs))))"

definition load_local :: "'v filesystem \<Rightarrow> string list \<Rightarrow> string \<Rightarrow> exn + 'v vectorstore" where
  "load_local fs cwd folder_path =
     (case read_file fs cwd (path_join2 folder_path ''index.faiss'') of
        Some (FaissFile vecs) \<Rightarrow>
          (case read_file fs cwd (path_join2 folder_path ''index.pkl'') of
             Some (PklFile ds) \<Rightarrow> Inr \<lparr>vectors = vecs, docstore = ds\<rparr>
           | _ \<Rightarrow> Inl (PyError ''FileNotFoundError'' ''[Errno 2] No such file or directory''))
      | _ \<Rightarrow> Inl (PyError ''RuntimeError'' ''could not open index.faiss for reading''))"

section \<open>Requests, configuration, collaborators\<close>

record index_request =
  folder_name :: string

record chat_request = index_request +
  query :: string

record folder_response =
  folder :: string

record index_response = folder_response +
  status :: string
  files_processed :: nat
  chunks_created :: nat

record chat_response = folder_response +
  answer :: string
  user_id :: string

text \<open>An entry of a storage listing: a dictionary whose \<^verbatim>\<open>"name"\<close> key may be missing.\<close>

record file_obj =
  name :: "string option"

record splitter_config =
  chunk_size :: nat
  chunk_overlap :: nat
  separators :: "string list"

record retriever_config =
  search_type :: string
  k :: nat
  fetch_k :: nat

record llm_config =
  model :: string
  temperature :: int
  max_tokens :: "nat option"
  reasoning_format :: string
  timeout :: "nat option"
  max_retries :: nat

text \<open>The calls that leave the process or touch the index directory, in the order made.\<close>

datatype event =
    StorageList string
  | StorageDownload string
  | EmbedDocuments "string list"
  | EmbedQuery string
  | Generate llm_config string
  | PathExists string
  | LoadIndex string
  | SaveIndex string

text \<open>
  The collaborators, as the functions they compute: the document storage (listing with
  the keyword argument, listing with the positional argument, download), the PDF loader
  run on the downloaded bytes, the embedding provider, the similarity of two vectors, the
  generation provider, and the process's working directory and write permissions.
\<close>

record 'v env =
  cwd :: "string list"
  read_only :: "string list \<Rightarrow> bool"
  storage_list_kw :: "string \<Rightarrow> exn + file_obj list"
  storage_list_pos :: "string \<Rightarrow> exn + file_obj list"
  storage_download :: "string \<Rightarrow> exn + string"
  pdf_load :: "string \<Rightarrow> exn + document list"
  embed_documents :: "string list \<Rightarrow> exn + 'v list"
  embed_query :: "string \<Rightarrow> exn + 'v"
  similarity :: "'v \<Rightarrow> 'v \<Rightarrow> int"
  generate :: "llm_config \<Rightarrow> string \<Rightarrow> exn + string"

record 'v world =
  disk :: "'v filesystem"
  events :: "event list"

definition emit :: "event \<Rightarrow> 'v world \<Rightarrow> 'v world" where
  "emit e w = w\<lparr>events := events w @ [e]\<rparr>"

definition is_provider_call :: "event \<Rightarrow> bool" where
  "is_provider_call e =
     (case e of
        EmbedDocuments ts \<Rightarrow> True
      | EmbedQuery t \<Rightarrow> True
      | Generate c p \<Rightarrow> True
      | _ \<Rightarrow> False)"

section \<open>Retrieval\<close>

text \<open>
  Modelled from the spec: the similarity search behind
  \<^verbatim>\<open>vectorstore.as_retriever(search_type="similarity", search_kwargs={"k": ..., "fetch_k": ...})\<close>
  is the vector store library's, which the source configures and does not contain. After
  section 4.5: the similarity of the query vector with every stored vector is computed, the
  top \<open>fetch_k\<close> candidates are taken, then the top \<open>k\<close> of those, by score, descending,
  ties in insertion order.
\<close>

fun insert_ranked :: "('a \<times> int) \<Rightarrow> ('a \<times> int) list \<Rightarrow> ('a \<times> int) list" where
  "insert_ranked x [] = [x]"
| "insert_ranked x (y # ys) =
     (if snd x < snd y then y # insert_ranked x ys else x # y # ys)"

definition rank :: "('a \<times> int) list \<Rightarrow> ('a \<times> int) list" where
  "rank xs = foldr insert_ranked xs []"

definition scored :: "('v \<Rightarrow> 'v \<Rightarrow> int) \<Rightarrow> 'v vectorstore \<Rightarrow> 'v \<Rightarrow> (document \<times> int) list" where
  "scored sim vs q = zip (docstore vs) (map (sim q) (vectors vs))"

definition retrieve ::
  "('v \<Rightarrow> 'v \<Rightarrow> int) \<Rightarrow> 'v vectorstore \<Rightarrow> 'v \<Rightarrow> nat \<Rightarrow> nat \<Rightarrow> (document \<times> int) list" where
  "retrieve sim vs q kk fk = take kk (take fk (rank (scored sim vs q)))"

section \<open>Answer synthesis\<close>

definition prompt_template :: string where
  \<open>prompt_template =
     ''You are an expert AI tutor helping students understand their study materials. '' @ ''\<newline>'' @
     ''Use the following context from the student's documents to answer their question accurately and comprehensively.'' @ ''\<newline>'' @
     ''\<newline>'' @
     ''Context from documents:'' @ ''\<newline>'' @
     ''{context}'' @ ''\<newline>'' @
     ''\<newline>'' @
     ''Student's Question: {question}'' @ ''\<newline>'' @
     ''\<newline>'' @
     ''Instructions:'' @ ''\<newline>'' @
     ''1. Answer based ONLY on the provided context'' @ ''\<newline>'' @
     ''2. If the answer isn't in the context, say "I don't have enough information in your documents to answer this question."'' @ ''\<newline>'' @
     ''3. Cite specific details from the context when possible'' @ ''\<newline>'' @
     ''4. Explain concepts clearly and break down complex topics'' @ ''\<newline>'' @
     ''5. Use examples from the documents if available'' @ ''\<newline>'' @
     ''6. If relevant, mention which part of the document the information comes from'' @ ''\<newline>'' @
     ''\<newline>'' @
     ''Answer:''\<close>

text \<open>
  \<^verbatim>\<open>PromptTemplate(template, input_variables=["context", "question"]).format(...)\<close>: one
  pass over the template, each placeholder replaced by its value.
\<close>

fun format_template :: "string \<Rightarrow> string \<Rightarrow> string \<Rightarrow> string" where
  "format_template [] ctx q = []"
| "format_template (c # cs) ctx q =
     (if c = CHR ''{'' \<and> take 8 cs = ''context}'' then ctx @ format_template (drop 8 cs) ctx q
      else if c = CHR ''{'' \<and> take 9 cs = ''question}'' then q @ format_template (drop 9 cs) ctx q
      else c # format_template cs ctx q)"

text \<open>The "stuff" chain: the retrieved documents' texts, joined by a blank line.\<close>

fun join_docs :: "string list \<Rightarrow> string" where
  "join_docs [] = []"
| "join_docs [t] = t"
| "join_docs (t # ts) = t @ ''\<newline>\<newline>'' @ join_docs ts"

definition retriever :: retriever_config where
  "retriever = \<lparr>search_type = ''similarity'', k = 10, fetch_k = 20\<rparr>"

definition llm :: llm_config where
  "llm = \<lparr>model = ''deepseek-r1-distill-llama-70b'', temperature = 0, max_tokens = None,
           reasoning_format = ''parsed'', timeout = None, max_retries = 2\<rparr>"

definition embed_query_call :: "'v env \<Rightarrow> 'v world \<Rightarrow> string \<Rightarrow> (exn + 'v) \<times> 'v world" where
  "embed_query_call env w t = (embed_query env t, emit (EmbedQuery t) w)"

definition generate_call :: "'v env \<Rightarrow> 'v world \<Rightarrow> llm_config \<Rightarrow> string \<Rightarrow> (exn + string) \<times> 'v world" where
  "generate_call env w c p = (generate env c p, emit (Generate c p) w)"

text \<open>
  \<^verbatim>\<open>qa.run(query_text)\<close> of the RetrievalQA chain: embed the query, retrieve, stuff the
  texts into the prompt, call the model once (the client's own retries, at most
  \<open>max_retries\<close>, are inside that call).
\<close>

definition qa_run ::
  "'v env \<Rightarrow> 'v world \<Rightarrow> 'v vectorstore \<Rightarrow> string \<Rightarrow> (exn + string) \<times> 'v world" where
  "qa_run env w vs query_text =
     (case embed_query_call env w query_text of
        (Inl e, w1) \<Rightarrow> (Inl e, w1)
      | (Inr qv, w1) \<Rightarrow>
          (let docs = map fst (retrieve (similarity env) vs qv (k retriever) (fetch_k retriever));
               context = join_docs (map page_content docs)
           in generate_call env w1 llm (format_template prompt_template context query_text)))"

section \<open>The chat operation\<close>

text \<open>The body of the \<^verbatim>\<open>try\<close> block of \<^verbatim>\<open>chat\<close>.\<close>

definition chat_body ::
  "'v env \<Rightarrow> 'v world \<Rightarrow> string \<Rightarrow> string \<Rightarrow> (exn + string) \<times> 'v world" where
  "chat_body env w index_path query_text =
     (let w1 = emit (LoadIndex index_path) w in
      case load_local (disk w1) (cwd env) index_path of
        Inl e \<Rightarrow> (Inl e, w1)
      | Inr vs \<Rightarrow> qa_run env w1 vs query_text)"

definition chat ::
  "'v env \<Rightarrow> 'v world \<Rightarrow> string \<Rightarrow> chat_request \<Rightarrow> (exn + chat_response) \<times> 'v world" where
  \<open>chat env w user request =
     (let folder_nm = folder_name request; query_text = query request in
      if query_text = [] then (Inl (HTTPException 400 ''Query text is required''), w)
      else
        let index_path = path_join INDEX_DIR [user, folder_nm @ ''_faiss''];
            w1 = emit (PathExists index_path) w
        in if \<not> path_exists (disk w1) (cwd env) index_path
           then (Inl (HTTPException 404
                   (''Folder '' @ [CHR 0x27] @ folder_nm @ [CHR 0x27] @ '' not indexed yet. Please index it first.'')), w1)
           else (case chat_body env w1 index_path query_text of
                   (Inl e, w2) \<Rightarrow>
                     (Inl (HTTPException 500 (''Error processing chat: '' @ exn_str e)), w2)
                 | (Inr a, w2) \<Rightarrow>
                     (Inr \<lparr>folder = folder_nm, answer = a, user_id = user\<rparr>, w2)))\<close>

section \<open>Chunking\<close>

text \<open>
  Modelled from the spec: the text splitter (\<^verbatim>\<open>RecursiveCharacterTextSplitter\<close>) is a
  library the source configures and does not contain. After section 4.1: the text is cut at
  the first separator; a piece that still exceeds \<open>max_size\<close> is cut at the next, harder
  separator, and so on; a piece that fits is cut no further. The empty separator cuts
  between any two characters. A separator stays at the head of the piece it starts, so no
  text is lost. A unit that is empty after trimming is skipped.
\<close>

fun cons_head :: "char \<Rightarrow> string list \<Rightarrow> string list" where
  "cons_head c [] = [[c]]"
| "cons_head c (w # ws) = (c # w) # ws"

text \<open>\<open>pieces sep n text\<close>: the next \<open>n\<close> characters belong to a separator already matched.\<close>

fun pieces :: "string \<Rightarrow> nat \<Rightarrow> string \<Rightarrow> string list" where
  "pieces sep n [] = [[]]"
| "pieces sep n (c # cs) =
     (if n = 0 \<and> take (length sep) (c # cs) = sep
      then [] # cons_head c (pieces sep (length sep - 1) cs)
      else cons_head c (pieces sep (n - 1) cs))"

definition split_on :: "string \<Rightarrow> string \<Rightarrow> string list" where
  "split_on sep text =
     filter (\<lambda>p. p \<noteq> [])
       (if sep = [] then map (\<lambda>c. [c]) text else pieces sep 0 text)"

fun split_text :: "nat \<Rightarrow> string list \<Rightarrow> string \<Rightarrow> string list" where
  "split_text max_size [] text = [text]"
| "split_text max_size (sep # seps) text =
     (if length text \<le> max_size then [text]
      else concat (map (split_text max_size seps) (split_on sep text)))"

definition is_space :: "char \<Rightarrow> bool" where
  "is_space c = (c \<in> set '' \<newline>'' \<or> c \<in> {CHR 0x09, CHR 0x0B, CHR 0x0C, CHR 0x0D})"

definition strip :: "string \<Rightarrow> string" where
  "strip s = rev (dropWhile is_space (rev (dropWhile is_space s)))"

definition split_documents :: "splitter_config \<Rightarrow> document list \<Rightarrow> document list" where
  "split_documents cfg docs =
     concat (map (\<lambda>d. if strip (page_content d) = [] then []
                       else map (\<lambda>t. d\<lparr>page_content := t\<rparr>)
                              (split_text (chunk_size cfg) (separators cfg) (page_content d)))
                 docs)"

definition splitter :: splitter_config where
  "splitter = \<lparr>chunk_size = 1500, chunk_overlap = 300,
                separators = [''\<newline>\<newline>'', ''\<newline>'', ''. '', '' '', '''']\<rparr>"

section \<open>The index_folder operation\<close>

definition lower_char :: "char \<Rightarrow> char" where
  "lower_char c =
     (let n = (of_char c :: nat) in if 65 \<le> n \<and> n \<le> 90 then char_of (n + 32) else c)"

definition lower :: "string \<Rightarrow> string" where
  "lower s = map lower_char s"

definition endswith :: "string \<Rightarrow> string \<Rightarrow> bool" where
  "endswith s suf = (length suf \<le> length s \<and> drop (length s - length suf) s = suf)"

text \<open>
  The listing: the call with the keyword argument and, when it raises, the call with the
  positional argument, whose exception is not caught here.
\<close>

definition list_files :: "'v env \<Rightarrow> 'v world \<Rightarrow> string \<Rightarrow> (exn + file_obj list) \<times> 'v world" where
  "list_files env w folder_path =
     (let w1 = emit (StorageList folder_path) w in
      case storage_list_kw env folder_path of
        Inr files_list \<Rightarrow> (Inr files_list, w1)
      | Inl list_error \<Rightarrow> (storage_list_pos env folder_path, emit (StorageList folder_path) w1))"

text \<open>
  The loop over \<^verbatim>\<open>pdf_files\<close>. The temporary file the bytes go through is made and
  removed inside \<open>pdf_load\<close>.
\<close>

fun load_pdfs ::
  "'v env \<Rightarrow> 'v world \<Rightarrow> string \<Rightarrow> file_obj list \<Rightarrow> document list
     \<Rightarrow> (exn + document list) \<times> 'v world" where
  "load_pdfs env w folder_path [] docs = (Inr docs, w)"
| "load_pdfs env w folder_path (file_o # rest) docs =
     (let file_name = name file_o in
      if file_name = Some ''.placeholder'' then load_pdfs env w folder_path rest docs
      else
        let file_path = folder_path @ ''/'' @ (case file_name of None \<Rightarrow> ''None'' | Some n \<Rightarrow> n);
            w1 = emit (StorageDownload file_path) w
        in case storage_download env file_path of
             Inl e \<Rightarrow> (Inl e, w1)
           | Inr file_data \<Rightarrow>
               (case pdf_load env file_data of
                  Inl e \<Rightarrow> (Inl e, w1)
                | Inr ds \<Rightarrow> load_pdfs env w1 folder_path rest (docs @ ds)))"

text \<open>
  \<^verbatim>\<open>FAISS.from_documents(chunks, embeddings)\<close>: the texts are embedded in one call; the
  index is sized by the first vector, so no vectors is an \<^verbatim>\<open>IndexError\<close>.
\<close>

definition from_documents ::
  "'v env \<Rightarrow> 'v world \<Rightarrow> document list \<Rightarrow> (exn + 'v vectorstore) \<times> 'v world" where
  "from_documents env w chunks =
     (let texts = map page_content chunks;
          w1 = emit (EmbedDocuments texts) w
      in case embed_documents env texts of
           Inl e \<Rightarrow> (Inl e, w1)
         | Inr vecs \<Rightarrow>
             if vecs = [] then (Inl (PyError ''IndexError'' ''list index out of range''), w1)
             else (Inr \<lparr>vectors = vecs, docstore = chunks\<rparr>, w1))"

text \<open>
  The \<^verbatim>\<open>try\<close> block of \<^verbatim>\<open>index_folder\<close> in two parts: up to the vector store built in
  memory (nothing on the local disk is touched), and the save with the response.
\<close>

definition index_folder_prepare ::
  "'v env \<Rightarrow> 'v world \<Rightarrow> string \<Rightarrow> index_request
     \<Rightarrow> (exn + 'v vectorstore \<times> nat \<times> nat) \<times> 'v world" where
  \<open>index_folder_prepare env w user request =
     (let folder_nm = folder_name request;
          folder_path = user @ ''/'' @ folder_nm
      in case list_files env w folder_path of
           (Inl e, w1) \<Rightarrow> (Inl e, w1)
         | (Inr files_list, w1) \<Rightarrow>
             if files_list = [] then
               (Inl (HTTPException 404
                  (''No files found in folder '' @ [CHR 0x27] @ folder_nm @ [CHR 0x27] @
                   ''. Path checked: '' @ folder_path @
                   ''. Make sure files are uploaded to the correct location.'')), w1)
             else
               let pdf_files =
                     filter (\<lambda>f. endswith (lower (case name f of None \<Rightarrow> [] | Some n \<Rightarrow> n)) ''.pdf'')
                       files_list
               in if pdf_files = [] then
                    (Inl (HTTPException 404
                       (''No PDF files found in folder '' @ [CHR 0x27] @ folder_nm @ [CHR 0x27])), w1)
                  else
                    (case load_pdfs env w1 folder_path pdf_files [] of
                       (Inl e, w2) \<Rightarrow> (Inl e, w2)
                     | (Inr docs, w2) \<Rightarrow>
                         if docs = [] then
                           (Inl (HTTPException 400 ''No content extracted from PDFs''), w2)
                         else
                           let chunks = split_documents splitter docs
                           in (case from_documents env w2 chunks of
                                 (Inl e, w3) \<Rightarrow> (Inl e, w3)
                               | (Inr vs, w3) \<Rightarrow>
                                   (Inr (vs, length pdf_files, length chunks), w3))))\<close>

definition index_folder_save ::
  "'v env \<Rightarrow> 'v world \<Rightarrow> string \<Rightarrow> index_request \<Rightarrow> 'v vectorstore \<times> nat \<times> nat
     \<Rightarrow> (exn + index_response) \<times> 'v world" where
  "index_folder_save env w user request built =
     (let index_path = path_join INDEX_DIR [user] in
      case makedirs (disk w) (cwd env) index_path of
        (Some e, fs1) \<Rightarrow> (Inl e, w\<lparr>disk := fs1\<rparr>)
      | (None, fs1) \<Rightarrow>
          (let target = path_join index_path [folder_name request @ ''_faiss''];
               w1 = emit (SaveIndex target) (w\<lparr>disk := fs1\<rparr>)
           in case save_local (read_only env) (disk w1) (cwd env) target (fst built) of
                (Some e, fs2) \<Rightarrow> (Inl e, w1\<lparr>disk := fs2\<rparr>)
              | (None, fs2) \<Rightarrow>
                  (Inr \<lparr>folder = folder_name request, status = ''indexed'',
                        files_processed = fst (snd built), chunks_created = snd (snd built)\<rparr>,
                   w1\<lparr>disk := fs2\<rparr>)))"

definition index_folder_body ::
  "'v env \<Rightarrow> 'v world \<Rightarrow> string \<Rightarrow> index_request \<Rightarrow> (exn + index_response) \<times> 'v world" where
  "index_folder_body env w user request =
     (case index_folder_prepare env w user request of
        (Inl e, w1) \<Rightarrow> (Inl e, w1)
      | (Inr built, w1) \<Rightarrow> index_folder_save env w1 user request built)"

text \<open>\<^verbatim>\<open>except Exception as e: raise HTTPException(500, ...)\<close> around the whole body.\<close>

definition index_folder ::
  "'v env \<Rightarrow> 'v world \<Rightarrow> string \<Rightarrow> index_request \<Rightarrow> (exn + index_response) \<times> 'v world" where
  "index_folder env w user request =
     (case index_folder_body env w user request of
        (Inl e, w1) \<Rightarrow> (Inl (HTTPException 500 (''Error indexing folder: '' @ exn_str e)), w1)
      | (Inr r, w1) \<Rightarrow> (Inr r, w1))"

section \<open>Two requests in flight\<close>




section \<open>A deployment to run the operations on\<close>

text \<open>
  The server runs in \<^verbatim>\<open>/srv/app\<close>. The storage holds \<^verbatim>\<open>bob/notes/secret.pdf\<close>,
  \<^verbatim>\<open>alice/mine/own.PDF\<close> and \<^verbatim>\<open>bob/scans/scan.pdf\<close> (a scan: no page comes out of
  it); the listing of \<^verbatim>\<open>bob/down\<close> raises. A page's text is \<open>text\<close> followed by the
  file's path. A text is embedded as its length, and vectors are the more similar the
  closer they are.
\<close>

definition demo_disk :: "int filesystem" where
  "demo_disk = [[] \<mapsto> Dir, [''srv''] \<mapsto> Dir, [''srv'', ''app''] \<mapsto> Dir]"

definition demo_world :: "int world" where
  "demo_world = \<lparr>disk = demo_disk, events = []\<rparr>"

definition demo_list :: "string \<Rightarrow> exn + file_obj list" where
  "demo_list p =
     (if p = ''bob/notes'' then Inr [\<lparr>name = Some ''secret.pdf''\<rparr>]
      else if p = ''alice/mine'' then Inr [\<lparr>name = Some ''own.PDF''\<rparr>]
      else if p = ''bob/scans'' then Inr [\<lparr>name = Some ''scan.pdf''\<rparr>]
      else if p = ''bob/down'' then Inl (PyError ''StorageException'' ''service unavailable'')
      else Inr [])"

definition demo_env :: "string \<Rightarrow> (string list \<Rightarrow> bool) \<Rightarrow> int env" where
  "demo_env text ro =
     \<lparr>cwd = [''srv'', ''app''],
      read_only = ro,
      storage_list_kw = demo_list,
      storage_list_pos = demo_list,
      storage_download = (\<lambda>p. Inr p),
      pdf_load = (\<lambda>d. if d = ''bob/scans/scan.pdf'' then Inr []
                       else Inr [\<lparr>page_content = text @ d, source = ''/tmp/tmp.pdf'', page = 0\<rparr>]),
      embed_documents = (\<lambda>ts. Inr (map (\<lambda>t. int (length t)) ts)),
      embed_query = (\<lambda>t. Inr (int (length t))),
      similarity = (\<lambda>a b. - \<bar>a - b\<bar>),
      generate = (\<lambda>c p. Inr ''An answer.'')\<rparr>"

definition nothing_locked :: "string list \<Rightarrow> bool" where
  "nothing_locked p = False"

text \<open>Bob has indexed his notes, then Alice her own folder.\<close>

definition bob_indexed :: "int world" where
  "bob_indexed = snd (index_folder (demo_env ''Notes of '' nothing_locked) demo_world ''bob'' \<lparr>folder_name = ''notes''\<rparr>)"

definition both_indexed :: "int world" where
  "both_indexed = snd (index_folder (demo_env ''Notes of '' nothing_locked) bob_indexed ''alice'' \<lparr>folder_name = ''mine''\<rparr>)"


section \<open>Properties of chat\<close>

text \<open>
  C10. A chat request whose question text is the empty string fails with status 400, and
  the world is returned as it was: no existence check of the index path, no index load and
  no provider call has been made.
\<close>

theorem chat_empty_query_rejected_first:
  "chat env w user \<lparr>folder_name = f, query = ''''\<rparr> =
     (Inl (HTTPException 400 ''Query text is required''), w)"
  by (simp add: chat_def)

text \<open>
  C6 (as amended). A chat request with a non-empty question whose index path does not exist
  on the disk gets status 404 ("not indexed yet"); the only thing done before is the
  existence check of that path, so no embedding or generation call has been made and the
  disk is as it was.
\<close>

theorem chat_unindexed_not_found:
  assumes "query request \<noteq> []"
    and "\<not> path_exists (disk w) (cwd env) (path_join INDEX_DIR [user, folder_name request @ ''_faiss''])"
  shows "chat env w user request =
           (Inl (HTTPException 404
                  (''Folder '' @ [CHR 0x27] @ folder_name request @ [CHR 0x27] @
                   '' not indexed yet. Please index it first.'')),
            emit (PathExists (path_join INDEX_DIR [user, folder_name request @ ''_faiss''])) w)
         \<and> filter is_provider_call (events (snd (chat env w user request))) =
             filter is_provider_call (events w)"
  using assms by (simp add: chat_def Let_def emit_def is_provider_call_def)

text \<open>The theorem at Alice's request for a folder nobody has indexed.\<close>

theorem chat_unindexed_not_found_witness:
  "query \<lparr>folder_name = ''notes'', query = ''hello''\<rparr> \<noteq> []
   \<and> \<not> path_exists (disk demo_world) (cwd (demo_env ''Notes of '' nothing_locked))
         (path_join INDEX_DIR [''alice'', folder_name \<lparr>folder_name = ''notes'', query = ''hello''\<rparr> @ ''_faiss''])
   \<and> fst (chat (demo_env ''Notes of '' nothing_locked) demo_world ''alice'' \<lparr>folder_name = ''notes'', query = ''hello''\<rparr>) =
       Inl (HTTPException 404 (''Folder '' @ [CHR 0x27] @ ''notes'' @ [CHR 0x27] @ '' not indexed yet. Please index it first.''))"
proof -
  have q: "query \<lparr>folder_name = ''notes'', query = ''hello''\<rparr> \<noteq> []" by simp
  have p: "\<not> path_exists (disk demo_world) (cwd (demo_env ''Notes of '' nothing_locked))
         (path_join INDEX_DIR [''alice'', folder_name \<lparr>folder_name = ''notes'', query = ''hello''\<rparr> @ ''_faiss''])"
    by code_simp
  from chat_unindexed_not_found [OF q p] q p show ?thesis by simp
qed

text \<open>
  C6 as stated fails: with an empty question the request for the same unindexed folder is
  answered 400, not 404, because the question is tested before the index path.
\<close>

theorem unindexed_empty_query_counterexample:
  "\<not> path_exists (disk demo_world) (cwd (demo_env ''Notes of '' nothing_locked))
       (path_join INDEX_DIR [''alice'', ''notes'' @ ''_faiss''])
   \<and> fst (chat (demo_env ''Notes of '' nothing_locked) demo_world ''alice'' \<lparr>folder_name = ''notes'', query = ''''\<rparr>)
       = Inl (HTTPException 400 ''Query text is required'')"
  by code_simp

subsection \<open>The prompt\<close>

lemma sublist_embed: "sublist xs ys \<Longrightarrow> sublist xs (a @ ys @ b)"
proof -
  assume "sublist xs ys"
  then obtain ps ss where "ys = ps @ xs @ ss" by (auto simp: sublist_def)
  then have "a @ ys @ b = (a @ ps) @ xs @ (ss @ b)" by simp
  then show ?thesis by (simp only: sublist_appendI)
qed

lemma sublist_in_join_docs: "t \<in> set ts \<Longrightarrow> sublist t (join_docs ts)"
proof (induction ts rule: join_docs.induct)
  case 1
  then show ?case by simp
next
  case (2 t')
  then show ?case by simp
next
  case (3 t' u us)
  show ?case
  proof (cases "t = t'")
    case True
    have "sublist t ([] @ t @ (''\<newline>\<newline>'' @ join_docs (u # us)))" by (rule sublist_appendI)
    with True show ?thesis by simp
  next
    case False
    with 3 have "sublist t (join_docs (u # us))" by simp
    then have "sublist t ((t' @ ''\<newline>\<newline>'') @ join_docs (u # us) @ [])"
      by (rule sublist_embed)
    then show ?thesis by simp
  qed
qed

lemma format_literal:
  "CHR ''{'' \<notin> set xs \<Longrightarrow> format_template (xs @ ys) ctx q = xs @ format_template ys ctx q"
  by (induction xs) auto

lemma format_context: "format_template (''{context}'' @ ys) ctx q = ctx @ format_template ys ctx q"
  by simp

lemma format_question: "format_template (''{question}'' @ ys) ctx q = q @ format_template ys ctx q"
  by simp

lemma format_prompt_template:
  \<open>\<exists>a b c d e. format_template prompt_template ctx q =
     a @ ctx @ b @ q @ c @ ''Answer based ONLY on the provided context'' @ d @
     ''If the answer isn't in the context, say "I don't have enough information in your documents to answer this question."'' @ e\<close>
proof -
  define a where \<open>a = ''You are an expert AI tutor helping students understand their study materials. '' @ ''\<newline>'' @
      ''Use the following context from the student's documents to answer their question accurately and comprehensively.'' @ ''\<newline>'' @
      ''\<newline>'' @ ''Context from documents:'' @ ''\<newline>''\<close>
  define b where \<open>b = ''\<newline>'' @ ''\<newline>'' @ ''Student's Question: ''\<close>
  define c where \<open>c = ''\<newline>'' @ ''\<newline>'' @ ''Instructions:'' @ ''\<newline>'' @ ''1. ''\<close>
  define i where \<open>i = ''Answer based ONLY on the provided context''\<close>
  define d where \<open>d = ''\<newline>'' @ ''2. ''\<close>
  define s where \<open>s = ''If the answer isn't in the context, say "I don't have enough information in your documents to answer this question."''\<close>
  define e where \<open>e = ''\<newline>'' @
      ''3. Cite specific details from the context when possible'' @ ''\<newline>'' @
      ''4. Explain concepts clearly and break down complex topics'' @ ''\<newline>'' @
      ''5. Use examples from the documents if available'' @ ''\<newline>'' @
      ''6. If relevant, mention which part of the document the information comes from'' @ ''\<newline>'' @
      ''\<newline>'' @ ''Answer:''\<close>
  have t: "prompt_template = a @ ''{context}'' @ b @ ''{question}'' @ (c @ i @ d @ s @ e) @ []"
    by (simp add: prompt_template_def a_def b_def c_def i_def d_def s_def e_def)
  have na: "CHR ''{'' \<notin> set a" by (simp add: a_def)
  have nb: "CHR ''{'' \<notin> set b" by (simp add: b_def)
  have nc: "CHR ''{'' \<notin> set (c @ i @ d @ s @ e)" by (simp add: c_def i_def d_def s_def e_def)
  have "format_template prompt_template ctx q = a @ ctx @ b @ q @ (c @ i @ d @ s @ e) @ format_template [] ctx q"
    unfolding t
    by (simp only: format_literal [OF na] format_context format_literal [OF nb] format_question
          format_literal [OF nc])
  then have "format_template prompt_template ctx q = a @ ctx @ b @ q @ c @ i @ d @ s @ e"
    by simp
  then show ?thesis unfolding i_def s_def by blast
qed

text \<open>
  C9. For every answered query, the generation provider has been called once, with
  temperature 0, on a prompt that contains the text of every retrieved chunk, the question,
  the instruction to answer from the provided context only, and the instruction to reply
  with the fixed sentence when the context does not hold the answer; the answer returned
  is the provider's reply to that prompt.
\<close>

theorem answered_query_prompt:
  assumes "chat env w user request = (Inr resp, w')"
  shows \<open>\<exists>vs qv p.
           load_local (disk w) (cwd env) (path_join INDEX_DIR [user, folder_name request @ ''_faiss'']) = Inr vs
         \<and> embed_query env (query request) = Inr qv
         \<and> events w' = events w @
             [PathExists (path_join INDEX_DIR [user, folder_name request @ ''_faiss'']),
              LoadIndex (path_join INDEX_DIR [user, folder_name request @ ''_faiss'']),
              EmbedQuery (query request),
              Generate llm p]
         \<and> generate env llm p = Inr (answer resp)
         \<and> temperature llm = 0
         \<and> (\<forall>d \<in> set (retrieve (similarity env) vs qv (k retriever) (fetch_k retriever)).
               sublist (page_content (fst d)) p)
         \<and> sublist (query request) p
         \<and> sublist ''Answer based ONLY on the provided context'' p
         \<and> sublist ''If the answer isn't in the context, say "I don't have enough information in your documents to answer this question."'' p\<close>
proof -
  let ?ip = "path_join INDEX_DIR [user, folder_name request @ ''_faiss'']"
  from assms obtain vs where l: "load_local (disk w) (cwd env) ?ip = Inr vs"
    by (auto simp: chat_def chat_body_def Let_def emit_def split: if_splits sum.splits prod.splits)
  from assms l obtain qv where q: "embed_query env (query request) = Inr qv"
    by (auto simp: chat_def chat_body_def qa_run_def embed_query_call_def Let_def emit_def
          split: if_splits sum.splits prod.splits)
  let ?docs = "map fst (retrieve (similarity env) vs qv (k retriever) (fetch_k retriever))"
  let ?ctx = "join_docs (map page_content ?docs)"
  let ?p = "format_template prompt_template ?ctx (query request)"
  from assms l q have ev: "events w' = events w @ [PathExists ?ip, LoadIndex ?ip, EmbedQuery (query request), Generate llm ?p]"
    and g: "generate env llm ?p = Inr (answer resp)"
    by (auto simp: chat_def chat_body_def qa_run_def embed_query_call_def generate_call_def Let_def emit_def
          split: if_splits sum.splits prod.splits)
  obtain a b c d e where sh: \<open>?p = a @ ?ctx @ b @ query request @ c @ ''Answer based ONLY on the provided context'' @ d @
     ''If the answer isn't in the context, say "I don't have enough information in your documents to answer this question."'' @ e\<close>
    using format_prompt_template [of ?ctx "query request"] by blast
  have s1: "sublist ?ctx ?p" unfolding sh by (rule sublist_appendI)
  have s2: "sublist (query request) ?p"
  proof -
    have "?p = (a @ ?ctx @ b) @ query request @ (drop (length (a @ ?ctx @ b @ query request)) ?p)"
      unfolding sh by simp
    then show ?thesis by (metis sublist_appendI)
  qed
  have s3: \<open>sublist ''Answer based ONLY on the provided context'' ?p\<close>
  proof -
    have "?p = (a @ ?ctx @ b @ query request @ c) @ ''Answer based ONLY on the provided context'' @
       (drop (length (a @ ?ctx @ b @ query request @ c @ ''Answer based ONLY on the provided context'')) ?p)"
      unfolding sh by simp
    then show ?thesis by (metis sublist_appendI)
  qed
  have s4: \<open>sublist ''If the answer isn't in the context, say "I don't have enough information in your documents to answer this question."'' ?p\<close>
  proof -
    have \<open>?p = (a @ ?ctx @ b @ query request @ c @ ''Answer based ONLY on the provided context'' @ d) @
       ''If the answer isn't in the context, say "I don't have enough information in your documents to answer this question."'' @ e\<close>
      unfolding sh by simp
    then show ?thesis by (metis sublist_appendI)
  qed
  have s5: "\<forall>d \<in> set (retrieve (similarity env) vs qv (k retriever) (fetch_k retriever)). sublist (page_content (fst d)) ?p"
  proof
    fix x assume "x \<in> set (retrieve (similarity env) vs qv (k retriever) (fetch_k retriever))"
    then have "page_content (fst x) \<in> set (map page_content ?docs)" by simp
    then have "sublist (page_content (fst x)) ?ctx" by (rule sublist_in_join_docs)
    then have "sublist (page_content (fst x)) (a @ ?ctx @ (drop (length (a @ ?ctx)) ?p))"
      by (rule sublist_embed)
    moreover have "?p = a @ ?ctx @ (drop (length (a @ ?ctx)) ?p)" unfolding sh by simp
    ultimately show "sublist (page_content (fst x)) ?p" by simp
  qed
  have tz: "temperature llm = 0" by (simp add: llm_def)
  from l q ev g tz s5 s2 s3 s4 show ?thesis by blast
qed

text \<open>The theorem at Alice's question about her own folder.\<close>

theorem answered_query_prompt_witness:
  \<open>chat (demo_env ''Notes of '' nothing_locked) both_indexed ''alice'' \<lparr>folder_name = ''mine'', query = ''What is in my notes?''\<rparr> =
     (Inr \<lparr>folder = ''mine'', answer = ''An answer.'', user_id = ''alice''\<rparr>,
      snd (chat (demo_env ''Notes of '' nothing_locked) both_indexed ''alice'' \<lparr>folder_name = ''mine'', query = ''What is in my notes?''\<rparr>))
   \<and> (\<exists>p. generate (demo_env ''Notes of '' nothing_locked) llm p = Inr ''An answer.''
          \<and> temperature llm = 0
          \<and> sublist ''What is in my notes?'' p
          \<and> sublist ''Answer based ONLY on the provided context'' p
          \<and> sublist ''If the answer isn't in the context, say "I don't have enough information in your documents to answer this question."'' p)\<close>
proof -
  let ?r = "chat (demo_env ''Notes of '' nothing_locked) both_indexed ''alice'' \<lparr>folder_name = ''mine'', query = ''What is in my notes?''\<rparr>"
  have "fst ?r = Inr \<lparr>folder = ''mine'', answer = ''An answer.'', user_id = ''alice''\<rparr>"
    by code_simp
  then have h: "?r = (Inr \<lparr>folder = ''mine'', answer = ''An answer.'', user_id = ''alice''\<rparr>, snd ?r)"
    by (metis prod.collapse)
  from answered_query_prompt [OF h] h show ?thesis by auto
qed

subsection \<open>Which index a chat request reads\<close>

text \<open>
  C1 fails on the code. Bob has indexed his folder \<^verbatim>\<open>notes\<close> and Alice her folder
  \<^verbatim>\<open>mine\<close>. Alice's chat request with \<^verbatim>\<open>folder_name = "../bob/notes"\<close> passes the
  existence check, loads the index stored under (bob, notes) and sends Bob's chunk to the
  generation provider as context: the folder name goes into the path unchecked.
\<close>

theorem traversal_reads_other_tenant:
  "load_local (disk both_indexed) [''srv'', ''app''] (path_join INDEX_DIR [''bob'', ''notes'' @ ''_faiss'']) =
     Inr \<lparr>vectors = [29], docstore = [\<lparr>page_content = ''Notes of bob/notes/secret.pdf'', source = ''/tmp/tmp.pdf'', page = 0\<rparr>]\<rparr>
   \<and> fst (chat (demo_env ''Notes of '' nothing_locked) both_indexed ''alice''
            \<lparr>folder_name = ''../bob/notes'', query = ''hi''\<rparr>) =
       Inr \<lparr>folder = ''../bob/notes'', answer = ''An answer.'', user_id = ''alice''\<rparr>
   \<and> events (snd (chat (demo_env ''Notes of '' nothing_locked) both_indexed ''alice''
                    \<lparr>folder_name = ''../bob/notes'', query = ''hi''\<rparr>)) =
       events both_indexed @
       [PathExists ''./data/indexes/alice/../bob/notes_faiss'',
        LoadIndex ''./data/indexes/alice/../bob/notes_faiss'',
        EmbedQuery ''hi'',
        Generate llm (format_template prompt_template ''Notes of bob/notes/secret.pdf'' ''hi'')]"
  by code_simp

section \<open>Properties of index_folder\<close>

subsection \<open>What a build does to the disk\<close>

lemma disk_emit [simp]: "disk (emit e w) = disk w"
  by (simp add: emit_def)

lemma list_files_disk: "disk (snd (list_files env w p)) = disk w"
  by (simp add: list_files_def Let_def split: sum.splits)

lemma load_pdfs_disk: "disk (snd (load_pdfs env w p fl docs)) = disk w"
proof (induction fl arbitrary: w docs)
  case Nil
  then show ?case by simp
next
  case (Cons f fl)
  then show ?case by (simp add: Let_def split: sum.splits)
qed

lemma from_documents_disk: "disk (snd (from_documents env w chunks)) = disk w"
  by (simp add: from_documents_def Let_def split: sum.splits)

lemma list_files_disk': "list_files env w p = (r, w1) \<Longrightarrow> disk w1 = disk w"
  using list_files_disk [of env w p] by simp

lemma load_pdfs_disk': "load_pdfs env w p fl docs = (r, w1) \<Longrightarrow> disk w1 = disk w"
  using load_pdfs_disk [of env w p fl docs] by simp

lemma from_documents_disk': "from_documents env w chunks = (r, w1) \<Longrightarrow> disk w1 = disk w"
  using from_documents_disk [of env w chunks] by simp

lemma index_folder_prepare_disk:
  "disk (snd (index_folder_prepare env w user request)) = disk w"
  unfolding index_folder_prepare_def Let_def
  by (auto split: prod.splits sum.splits
        dest!: list_files_disk' load_pdfs_disk' from_documents_disk')











subsection \<open>The status of a failed build\<close>

text \<open>
  C4 fails on the code. Indexing a folder with no files raises the 404 inside the
  \<^verbatim>\<open>try\<close> block, whose \<^verbatim>\<open>except Exception\<close> clause turns it into status 500, the same
  status as a failure of the storage service: the two causes reach the caller with one
  kind, told apart by the message text only.
\<close>

theorem not_found_surfaces_as_500:
  "fst (index_folder (demo_env ''Notes of '' nothing_locked) demo_world ''bob'' \<lparr>folder_name = ''nothing''\<rparr>) =
     Inl (HTTPException 500
            (''Error indexing folder: 404: No files found in folder '' @ [CHR 0x27] @ ''nothing'' @ [CHR 0x27] @
             ''. Path checked: bob/nothing. Make sure files are uploaded to the correct location.''))
   \<and> fst (index_folder (demo_env ''Notes of '' nothing_locked) demo_world ''bob'' \<lparr>folder_name = ''down''\<rparr>) =
     Inl (HTTPException 500 ''Error indexing folder: service unavailable'')"
  by code_simp

lemma failed_prepare_world:
  "fst (index_folder_prepare env w user request) = Inl e \<Longrightarrow>
     snd (index_folder env w user request) = snd (index_folder_prepare env w user request)"
  by (auto simp: index_folder_def index_folder_body_def split: prod.splits sum.splits)

text \<open>
  C5 fails on the code in its first part. Bob's folder \<^verbatim>\<open>scans\<close> holds one PDF from
  which no page comes out. The build raises the 400 "No content extracted from PDFs"
  inside the \<^verbatim>\<open>try\<close> block and the caller gets status 500. The disk, with Bob's
  committed index, is left as it was.
\<close>

theorem empty_corpus_surfaces_as_500:
  "fst (index_folder (demo_env ''Notes of '' nothing_locked) bob_indexed ''bob'' \<lparr>folder_name = ''scans''\<rparr>) =
     Inl (HTTPException 500 ''Error indexing folder: 400: No content extracted from PDFs'')
   \<and> disk (snd (index_folder (demo_env ''Notes of '' nothing_locked) bob_indexed ''bob'' \<lparr>folder_name = ''scans''\<rparr>)) =
       disk bob_indexed"
proof -
  let ?env = "demo_env ''Notes of '' nothing_locked"
  let ?rq = "\<lparr>folder_name = ''scans''\<rparr>"
  have a: "fst (index_folder ?env bob_indexed ''bob'' ?rq) =
     Inl (HTTPException 500 ''Error indexing folder: 400: No content extracted from PDFs'')"
    by code_simp
  have b: "fst (index_folder_prepare ?env bob_indexed ''bob'' ?rq) =
     Inl (HTTPException 400 ''No content extracted from PDFs'')"
    by code_simp
  have "disk (snd (index_folder ?env bob_indexed ''bob'' ?rq)) = disk bob_indexed"
    by (simp only: failed_prepare_world [OF b] index_folder_prepare_disk)
  with a show ?thesis by simp
qed

subsection \<open>Two builds at once\<close>











section \<open>Properties of the retriever\<close>

lemma set_insert_ranked: "set (insert_ranked x xs) = insert x (set xs)"
  by (induction xs) auto

lemma mset_insert_ranked: "mset (insert_ranked x xs) = add_mset x (mset xs)"
  by (induction xs) auto

lemma sorted_insert_ranked:
  "sorted_wrt (\<lambda>a b. snd b \<le> snd a) xs \<Longrightarrow> sorted_wrt (\<lambda>a b. snd b \<le> snd a) (insert_ranked x xs)"
  by (induction xs) (auto simp: set_insert_ranked)

lemma mset_rank: "mset (rank xs) = mset xs"
  unfolding rank_def by (induction xs) (simp_all add: mset_insert_ranked)

lemma sorted_rank: "sorted_wrt (\<lambda>a b. snd b \<le> snd a) (rank xs)"
  unfolding rank_def by (induction xs) (simp_all add: sorted_insert_ranked)

lemma sorted_take_drop:
  assumes "sorted_wrt R xs" and "x \<in> set (take n xs)" and "y \<in> set (drop n xs)"
  shows "R x y"
proof -
  have "sorted_wrt R (take n xs @ drop n xs)" using assms(1) by simp
  then show ?thesis using assms(2,3) unfolding sorted_wrt_append by blast
qed

lemma sorted_wrt_take: "sorted_wrt R xs \<Longrightarrow> sorted_wrt R (take n xs)"
proof -
  assume "sorted_wrt R xs"
  then have "sorted_wrt R (take n xs @ drop n xs)" by simp
  then show ?thesis unfolding sorted_wrt_append by blast
qed

text \<open>
  C8. The retriever is configured for similarity search with k = 10 and fetch_k = 20, so
  fetch_k is at least k. It takes the top 20 candidates of the ranking, then the top 10 of
  those, which are the top 10 of the ranking; the ranking is a permutation of the stored
  chunks with their scores; the result is in descending order of score, has at most 10
  entries, and no chunk left out scores higher than one returned. An empty index gives the
  empty result.
\<close>

theorem retrieval_two_stage_top_k:
  "search_type retriever = ''similarity'' \<and> k retriever = 10 \<and> fetch_k retriever = 20
   \<and> k retriever \<le> fetch_k retriever
   \<and> retrieve sim vs q (k retriever) (fetch_k retriever) = take 10 (take 20 (rank (scored sim vs q)))
   \<and> retrieve sim vs q (k retriever) (fetch_k retriever) = take 10 (rank (scored sim vs q))
   \<and> mset (rank (scored sim vs q)) = mset (scored sim vs q)
   \<and> sorted_wrt (\<lambda>a b. snd b \<le> snd a) (retrieve sim vs q (k retriever) (fetch_k retriever))
   \<and> length (retrieve sim vs q (k retriever) (fetch_k retriever)) \<le> 10
   \<and> (\<forall>x \<in> set (retrieve sim vs q (k retriever) (fetch_k retriever)).
        \<forall>y \<in> set (drop 10 (rank (scored sim vs q))). snd y \<le> snd x)
   \<and> retrieve sim \<lparr>vectors = [], docstore = []\<rparr> q (k retriever) (fetch_k retriever) = []"
proof -
  have r: "retrieve sim vs q (k retriever) (fetch_k retriever) = take 10 (rank (scored sim vs q))"
    by (simp add: retrieve_def retriever_def)
  have s: "sorted_wrt (\<lambda>a b. snd b \<le> snd a) (take 10 (rank (scored sim vs q)))"
    by (rule sorted_wrt_take) (rule sorted_rank)
  have t: "\<forall>x \<in> set (take 10 (rank (scored sim vs q))).
             \<forall>y \<in> set (drop 10 (rank (scored sim vs q))). snd y \<le> snd x"
    using sorted_take_drop [OF sorted_rank] by blast
  have e: "retrieve sim \<lparr>vectors = [], docstore = []\<rparr> q (k retriever) (fetch_k retriever) = []"
    by (simp add: retrieve_def scored_def rank_def)
  have c: "search_type retriever = ''similarity'' \<and> k retriever = 10 \<and> fetch_k retriever = 20
           \<and> k retriever \<le> fetch_k retriever"
    by (simp add: retriever_def)
  have r2: "retrieve sim vs q (k retriever) (fetch_k retriever) = take 10 (take 20 (rank (scored sim vs q)))"
    by (simp add: retrieve_def retriever_def)
  have l: "length (take 10 (rank (scored sim vs q))) \<le> 10" by simp
  from c r2 r s t e l mset_rank [of "scored sim vs q"] show ?thesis
    by simp
qed

text \<open>The theorem at an index of twelve chunks: the tenth is returned, the eleventh is not.\<close>

theorem retrieval_two_stage_top_k_witness:
  "(\<lparr>page_content = replicate 9 (CHR ''a''), source = ''f.pdf'', page = 9\<rparr>, - 9)
     \<in> set (retrieve (\<lambda>a b. - \<bar>a - b\<bar>)
              \<lparr>vectors = map int [0..<12],
               docstore = map (\<lambda>i. \<lparr>page_content = replicate i (CHR ''a''), source = ''f.pdf'', page = i\<rparr>) [0..<12]\<rparr>
              0 (k retriever) (fetch_k retriever))
   \<and> (\<lparr>page_content = replicate 10 (CHR ''a''), source = ''f.pdf'', page = 10\<rparr>, - 10)
     \<in> set (drop 10 (rank (scored (\<lambda>a b. - \<bar>a - b\<bar>)
              \<lparr>vectors = map int [0..<12],
               docstore = map (\<lambda>i. \<lparr>page_content = replicate i (CHR ''a''), source = ''f.pdf'', page = i\<rparr>) [0..<12]\<rparr>
              0)))
   \<and> snd (\<lparr>page_content = replicate 10 (CHR ''a''), source = ''f.pdf'', page = 10\<rparr>, - 10 :: int)
       \<le> snd (\<lparr>page_content = replicate 9 (CHR ''a''), source = ''f.pdf'', page = 9\<rparr>, - 9 :: int)"
proof -
  let ?vs = "\<lparr>vectors = map int [0..<12],
               docstore = map (\<lambda>i. \<lparr>page_content = replicate i (CHR ''a''), source = ''f.pdf'', page = i\<rparr>) [0..<12]\<rparr>"
  let ?sim = "\<lambda>a b :: int. - \<bar>a - b\<bar>"
  let ?x = "(\<lparr>page_content = replicate 9 (CHR ''a''), source = ''f.pdf'', page = 9\<rparr>, - 9 :: int)"
  let ?y = "(\<lparr>page_content = replicate 10 (CHR ''a''), source = ''f.pdf'', page = 10\<rparr>, - 10 :: int)"
  have hx: "?x \<in> set (retrieve ?sim ?vs 0 (k retriever) (fetch_k retriever))" by code_simp
  have hy: "?y \<in> set (drop 10 (rank (scored ?sim ?vs 0)))" by code_simp
  from retrieval_two_stage_top_k [of ?sim ?vs 0] hx hy have "snd ?y \<le> snd ?x" by blast
  with hx hy show ?thesis by blast
qed

section \<open>Properties of the chunker\<close>












end
